theory Spec2Isabelle
  imports Complex_Main
begin

section \<open>JavaScript values\<close>

text \<open>
  The service of \<^verbatim>\<open>src/services/smtp.js\<close> handles untyped JavaScript values: event payloads,
  render contexts and stored notification data. They are embedded as a datatype. A number
  is a rational (the value of a finite double), an object is an association list read with
  \<open>map_of\<close> (the first entry of a key is the one that counts).
\<close>

datatype jsval =
    JUndefined
  | JNull
  | JBool bool
  | JNum rat
  | JStr string
  | JArr "jsval list"
  | JObj "(string \<times> jsval) list"

text \<open>What the source can throw (a rejected promise of an \<^verbatim>\<open>async\<close> method included).\<close>

datatype error =
    TypeError
  | ReferenceError
  | Rejected string

text \<open>JavaScript truthiness, as tested by \<^verbatim>\<open>!x\<close>, \<^verbatim>\<open>x || y\<close> and \<^verbatim>\<open>if (x)\<close>.\<close>

fun truthy :: "jsval \<Rightarrow> bool" where
  "truthy JUndefined = False"
| "truthy JNull = False"
| "truthy (JBool b) = b"
| "truthy (JNum n) = (n \<noteq> 0)"
| "truthy (JStr s) = (s \<noteq> [])"
| "truthy (JArr xs) = True"
| "truthy (JObj kvs) = True"

text \<open>
  The property read \<^verbatim>\<open>v.k\<close>: a TypeError on \<^verbatim>\<open>undefined\<close> and \<^verbatim>\<open>null\<close>, the stored value
  or \<^verbatim>\<open>undefined\<close> on an object, \<^verbatim>\<open>undefined\<close> on the other values (none of the keys read
  by the service is a built-in property of a primitive or an array).
\<close>

fun get_prop :: "jsval \<Rightarrow> string \<Rightarrow> error + jsval" where
  "get_prop JUndefined k = Inl TypeError"
| "get_prop JNull k = Inl TypeError"
| "get_prop (JObj kvs) k = Inr (case map_of kvs k of None \<Rightarrow> JUndefined | Some v \<Rightarrow> v)"
| "get_prop (JBool b) k = Inr JUndefined"
| "get_prop (JNum n) k = Inr JUndefined"
| "get_prop (JStr s) k = Inr JUndefined"
| "get_prop (JArr xs) k = Inr JUndefined"

text \<open>\<^verbatim>\<open>a || b\<close>\<close>

definition js_or :: "jsval \<Rightarrow> jsval \<Rightarrow> jsval" where
  "js_or a b = (if truthy a then a else b)"

text \<open>
  The own enumerable properties copied by the object spread \<^verbatim>\<open>{...v}\<close>; the payloads
  spread by the service are objects, and \<^verbatim>\<open>undefined\<close>, \<^verbatim>\<open>null\<close>, booleans and numbers
  spread nothing.
\<close>

fun spread :: "jsval \<Rightarrow> (string \<times> jsval) list" where
  "spread (JObj kvs) = kvs"
| "spread v = []"

section \<open>The service and its collaborators\<close>

record options =
  fromEmail :: string
  emailTemplatePath :: string
  templateMap :: "(string \<times> jsval) list"

text \<open>The defaults of the constructor (lines 63 to 75); the transport is external.\<close>

definition default_options :: options where
  "default_options =
     \<lparr> fromEmail = ''noreply@medusajs.com'',
       emailTemplatePath = ''data/emailTemplates'',
       templateMap = [(''order.placed'', JStr ''orderplaced'')] \<rparr>"

text \<open>
  The optional capability handed to the dispatcher: absent (\<^verbatim>\<open>null\<close> or \<^verbatim>\<open>undefined\<close>), or an
  object that may expose \<^verbatim>\<open>createReturnInvoice(order, items)\<close>.
\<close>

datatype attachment_generator =
    NoGenerator
  | Generator "(jsval \<Rightarrow> jsval \<Rightarrow> error + jsval) option"

text \<open>
  The service object \<^verbatim>\<open>this\<close>. The fields are what the methods of the dispatch path read:
  \<^item> \<open>smtp_options\<close> for \<^verbatim>\<open>this.options_\<close>, set by the constructor (a name of the logic
    cannot end with an underscore);
  \<^item> \<open>giftCardService\<close> for \<^verbatim>\<open>this.giftCardService_\<close>, which \<^verbatim>\<open>gcCreatedData\<close> reads: \<open>None\<close> is \<^verbatim>\<open>undefined\<close>, \<open>Some r\<close> is
    a service whose \<^verbatim>\<open>retrieve(id, config)\<close> is \<open>r\<close>;
  \<^item> \<open>retrieveDocuments\<close> of \<^verbatim>\<open>fulfillmentProviderService_\<close>;
  \<^item> the assemblers that query the order, return, swap, claim, fulfillment, cart and
    product variant services. The dispatcher sees only their outcome, a context or a throw,
    which depends on those external services, so each is a field of its own name.
\<close>

record smtp_service =
  smtp_options :: options
  giftCardService :: "(jsval \<Rightarrow> error + jsval) option"
  retrieveDocuments :: "jsval \<Rightarrow> jsval \<Rightarrow> string \<Rightarrow> error + jsval"
  returnRequestedData :: "jsval \<Rightarrow> error + jsval"
  swapShipmentCreatedData :: "jsval \<Rightarrow> error + jsval"
  claimShipmentCreatedData :: "jsval \<Rightarrow> error + jsval"
  swapReceivedData :: "jsval \<Rightarrow> error + jsval"
  swapCreatedData :: "jsval \<Rightarrow> error + jsval"
  orderPlacedData :: "jsval \<Rightarrow> error + jsval"
  orderShipmentCreatedData :: "jsval \<Rightarrow> error + jsval"
  orderCanceledData :: "jsval \<Rightarrow> error + jsval"
  restockNotificationData :: "jsval \<Rightarrow> error + jsval"

text \<open>
  The constructor (lines 45 to 89): the caller's options override the defaults key by key,
  the services come from the container. No line assigns \<^verbatim>\<open>this.giftCardService_\<close>, and the
  constructor does not take a gift card service from the container, so the field reads
  \<^verbatim>\<open>undefined\<close> on every constructed service.
\<close>

record caller_options =
  opt_fromEmail :: "string option"
  opt_emailTemplatePath :: "string option"
  opt_templateMap :: "(string \<times> jsval) list option"

definition merge_options :: "caller_options \<Rightarrow> options" where
  "merge_options c =
     \<lparr> fromEmail = (case opt_fromEmail c of None \<Rightarrow> fromEmail default_options | Some v \<Rightarrow> v),
       emailTemplatePath =
         (case opt_emailTemplatePath c of None \<Rightarrow> emailTemplatePath default_options | Some v \<Rightarrow> v),
       templateMap = (case opt_templateMap c of None \<Rightarrow> templateMap default_options | Some v \<Rightarrow> v) \<rparr>"

definition constructor :: "smtp_service \<Rightarrow> caller_options \<Rightarrow> smtp_service" where
  "constructor container c = container \<lparr> smtp_options := merge_options c, giftCardService := None \<rparr>"

section \<open>Attachment resolution\<close>

record attachment =
  a_name :: string
  a_base64 :: jsval
  a_type :: jsval

text \<open>\<^verbatim>\<open>lbl.map((d) => ({name: 'return-label', base64: d.base_64, type: d.type}))\<close>\<close>

fun label_attachments :: "jsval list \<Rightarrow> error + attachment list" where
  "label_attachments [] = Inr []"
| "label_attachments (d # ds) =
     (case get_prop d ''base_64'' of
        Inl e \<Rightarrow> Inl e
      | Inr b \<Rightarrow>
          (case get_prop d ''type'' of
             Inl e \<Rightarrow> Inl e
           | Inr t \<Rightarrow>
               (case label_attachments ds of
                  Inl e \<Rightarrow> Inl e
                | Inr rest \<Rightarrow> Inr (\<lparr> a_name = ''return-label'', a_base64 = b, a_type = t \<rparr> # rest))))"

text \<open>The labels of the shipping method, when there is one (lines 97 to 113).\<close>

definition fetch_labels :: "smtp_service \<Rightarrow> jsval \<Rightarrow> jsval \<Rightarrow> error + attachment list" where
  "fetch_labels this shipping_method shipping_data =
     (if truthy shipping_method then
        (case get_prop shipping_method ''shipping_option'' of
           Inl e \<Rightarrow> Inl e
         | Inr so \<Rightarrow>
             (case get_prop so ''provider_id'' of
                Inl e \<Rightarrow> Inl e
              | Inr provider \<Rightarrow>
                  (case retrieveDocuments this provider shipping_data ''label'' of
                     Inl e \<Rightarrow> Inl e
                   | Inr (JArr ds) \<Rightarrow> label_attachments ds
                   | Inr other \<Rightarrow> Inl TypeError)))
      else Inr [])"

text \<open>The invoice of the attachment generator, when it has the capability (lines 115 to 125).\<close>

definition fetch_invoice :: "attachment_generator \<Rightarrow> jsval \<Rightarrow> jsval \<Rightarrow> error + attachment list" where
  "fetch_invoice attachmentGenerator data return_request =
     (case attachmentGenerator of
        NoGenerator \<Rightarrow> Inr []
      | Generator None \<Rightarrow> Inr []
      | Generator (Some createReturnInvoice) \<Rightarrow>
          (case get_prop data ''order'' of
             Inl e \<Rightarrow> Inl e
           | Inr ord \<Rightarrow>
               (case get_prop return_request ''items'' of
                  Inl e \<Rightarrow> Inl e
                | Inr items \<Rightarrow>
                    (case createReturnInvoice ord items of
                       Inl e \<Rightarrow> Inl e
                     | Inr base64 \<Rightarrow>
                         Inr [\<lparr> a_name = ''invoice'', a_base64 = base64,
                                a_type = JStr ''application/pdf'' \<rparr>]))))"

definition fetchAttachments ::
  "smtp_service \<Rightarrow> string \<Rightarrow> jsval \<Rightarrow> attachment_generator \<Rightarrow> error + attachment list" where
  "fetchAttachments this event data attachmentGenerator =
     (if event = ''swap.created'' \<or> event = ''order.return_requested'' then
        (case get_prop data ''return_request'' of
           Inl e \<Rightarrow> Inl e
         | Inr return_request \<Rightarrow>
             (case get_prop return_request ''shipping_method'' of
                Inl e \<Rightarrow> Inl e
              | Inr shipping_method \<Rightarrow>
                  (case get_prop return_request ''shipping_data'' of
                     Inl e \<Rightarrow> Inl e
                   | Inr shipping_data \<Rightarrow>
                       (case fetch_labels this shipping_method shipping_data of
                          Inl e \<Rightarrow> Inl e
                        | Inr labels \<Rightarrow>
                            (case fetch_invoice attachmentGenerator data return_request of
                               Inl e \<Rightarrow> Inl e
                             | Inr invoice \<Rightarrow> Inr (labels @ invoice))))))
      else Inr [])"

section \<open>Data assembly\<close>

text \<open>
  \<^verbatim>\<open>gcCreatedData({ id })\<close> (lines 618 to 637). Destructuring the parameter throws on
  \<^verbatim>\<open>undefined\<close> and \<^verbatim>\<open>null\<close>; \<^verbatim>\<open>this.giftCardService_.retrieve\<close> throws when the field is
  \<^verbatim>\<open>undefined\<close>; a gift card without order returns \<^verbatim>\<open>undefined\<close>; the argument \<^verbatim>\<open>order\<close> of
  \<^verbatim>\<open>this.extractLocale(order)\<close> is a name that no scope declares, so evaluating it throws
  a ReferenceError before \<^verbatim>\<open>extractLocale\<close> is entered.
\<close>

definition gcCreatedData :: "smtp_service \<Rightarrow> jsval \<Rightarrow> error + jsval" where
  "gcCreatedData this eventData =
     (case get_prop eventData ''id'' of
        Inl e \<Rightarrow> Inl e
      | Inr gid \<Rightarrow>
          (case giftCardService this of
             None \<Rightarrow> Inl TypeError
           | Some retrieve \<Rightarrow>
               (case retrieve gid of
                  Inl e \<Rightarrow> Inl e
                | Inr giftCard \<Rightarrow>
                    (case get_prop giftCard ''order'' of
                       Inl e \<Rightarrow> Inl e
                     | Inr ord \<Rightarrow>
                         if \<not> truthy ord then Inr JUndefined
                         else
                           (case get_prop giftCard ''region'' of
                              Inl e \<Rightarrow> Inl e
                            | Inr region \<Rightarrow>
                                (case get_prop region ''tax_rate'' of
                                   Inl e \<Rightarrow> Inl e
                                 | Inr tax_rate \<Rightarrow> Inl ReferenceError))))))"

definition userPasswordResetData :: "jsval \<Rightarrow> error + jsval" where
  "userPasswordResetData data = Inr data"

definition customerPasswordResetData :: "jsval \<Rightarrow> error + jsval" where
  "customerPasswordResetData data = Inr data"

text \<open>\<^verbatim>\<open>{ email: data.user_email, ...data }\<close>: an \<^verbatim>\<open>email\<close> of the payload itself wins.\<close>

definition inviteData :: "jsval \<Rightarrow> error + jsval" where
  "inviteData data =
     (case get_prop data ''user_email'' of
        Inl e \<Rightarrow> Inl e
      | Inr user_email \<Rightarrow> Inr (JObj (spread data @ [(''email'', user_email)])))"

definition itemsReturnedData :: "smtp_service \<Rightarrow> jsval \<Rightarrow> error + jsval" where
  "itemsReturnedData this data = returnRequestedData this data"

definition fetchData ::
  "smtp_service \<Rightarrow> string \<Rightarrow> jsval \<Rightarrow> attachment_generator \<Rightarrow> error + jsval" where
  "fetchData this event eventData attachmentGenerator =
     (if event = ''order.return_requested'' then returnRequestedData this eventData
      else if event = ''swap.shipment_created'' then swapShipmentCreatedData this eventData
      else if event = ''claim.shipment_created'' then claimShipmentCreatedData this eventData
      else if event = ''order.items_returned'' then itemsReturnedData this eventData
      else if event = ''swap.received'' then swapReceivedData this eventData
      else if event = ''swap.created'' then swapCreatedData this eventData
      else if event = ''gift_card.created'' then gcCreatedData this eventData
      else if event = ''order.gift_card_created'' then gcCreatedData this eventData
      else if event = ''order.placed'' then orderPlacedData this eventData
      else if event = ''order.shipment_created'' then orderShipmentCreatedData this eventData
      else if event = ''order.canceled'' then orderCanceledData this eventData
      else if event = ''user.password_reset'' then userPasswordResetData eventData
      else if event = ''customer.password_reset'' then customerPasswordResetData eventData
      else if event = ''invite.created'' then inviteData eventData
      else if event = ''restock-notification.restocked'' then restockNotificationData this eventData
      else Inr eventData)"

section \<open>The dispatcher\<close>

text \<open>
  \<^verbatim>\<open>this.options_.templateMap[eventName] || false\<close>. The template map is a plain object of
  the configuration; the keys inherited from \<^verbatim>\<open>Object.prototype\<close> are outside the model.
\<close>

definition getTemplateNameForEvent :: "smtp_service \<Rightarrow> string \<Rightarrow> jsval" where
  "getTemplateNameForEvent this eventName =
     js_or (case map_of (templateMap (smtp_options this)) eventName of
              None \<Rightarrow> JUndefined | Some v \<Rightarrow> v)
           (JBool False)"

datatype status = sent | failed | noTemplateFound | noDataFound

record notification_result =
  r_to :: jsval
  r_status :: status
  r_data :: jsval

record mail_attachment =
  content :: jsval
  filename :: string
  type :: jsval
  disposition :: string
  contentId :: string

definition mail_attachment_of :: "attachment \<Rightarrow> mail_attachment" where
  "mail_attachment_of a =
     \<lparr> content = a_base64 a, filename = a_name a, type = a_type a,
       disposition = ''attachment'', contentId = a_name a \<rparr>"

text \<open>
  \<^verbatim>\<open>sendOptions\<close>: \<open>message_attachments\<close> is \<open>None\<close> while the key is not set. The global
  \<^verbatim>\<open>process.env\<close> under \<^verbatim>\<open>locals.env\<close> is not part of the model.
\<close>

record send_options =
  template :: jsval
  message_to :: jsval
  message_attachments :: "mail_attachment list option"
  locals_data :: jsval

text \<open>
  What a dispatch does to its collaborators, in order. The mail client \<^verbatim>\<open>email.send\<close> is a
  parameter \<open>mail\<close>: \<open>True\<close> when the promise resolves, \<open>False\<close> when it rejects.
\<close>

datatype call =
    FetchData string jsval
  | FetchAttachments string jsval
  | Send send_options

text \<open>\<^verbatim>\<open>sendNotification\<close> (lines 178 to 243).\<close>

definition sendNotification ::
  "smtp_service \<Rightarrow> (send_options \<Rightarrow> bool) \<Rightarrow> string \<Rightarrow> jsval \<Rightarrow> attachment_generator
     \<Rightarrow> call list \<times> (error + notification_result)" where
  "sendNotification this mail event eventData attachmentGenerator =
     (let templateName = getTemplateNameForEvent this event in
      if \<not> truthy templateName then
        ([], Inr \<lparr> r_to = JStr '''', r_status = noDataFound, r_data = JObj [] \<rparr>)
      else
        (case fetchData this event eventData attachmentGenerator of
           Inl e \<Rightarrow> ([FetchData event eventData], Inl e)
         | Inr data \<Rightarrow>
             (case fetchAttachments this event data attachmentGenerator of
                Inl e \<Rightarrow> ([FetchData event eventData, FetchAttachments event data], Inl e)
              | Inr attachments \<Rightarrow>
                  (case get_prop data ''email'' of
                     Inl e \<Rightarrow> ([FetchData event eventData, FetchAttachments event data], Inl e)
                   | Inr email \<Rightarrow>
                       (let sendOptions =
                              \<lparr> template = templateName,
                                message_to = email,
                                message_attachments =
                                  (if attachments \<noteq> []
                                   then Some (map mail_attachment_of attachments) else None),
                                locals_data = data \<rparr>;
                            status = (if mail sendOptions then sent else failed)
                        in ([FetchData event eventData, FetchAttachments event data,
                             Send sendOptions],
                            Inr \<lparr> r_to = message_to sendOptions,
                                  r_status = status,
                                  r_data = js_or (locals_data sendOptions) (JObj []) \<rparr>))))))"

text \<open>A stored notification, as handed to \<^verbatim>\<open>resendNotification\<close> (lines 245 to 304).\<close>

record notification =
  event_name :: string
  n_to :: jsval
  n_data :: jsval

definition resendNotification ::
  "smtp_service \<Rightarrow> (send_options \<Rightarrow> bool) \<Rightarrow> notification \<Rightarrow> jsval \<Rightarrow> attachment_generator
     \<Rightarrow> call list \<times> (error + notification_result)" where
  "resendNotification this mail notification config attachmentGenerator =
     (let templateName = getTemplateNameForEvent this (event_name notification) in
      if \<not> truthy templateName then
        ([], Inr \<lparr> r_to = n_to notification, r_status = noTemplateFound,
                   r_data = n_data notification \<rparr>)
      else
        (case get_prop config ''to'' of
           Inl e \<Rightarrow> ([], Inl e)
         | Inr config_to \<Rightarrow>
             (case get_prop (n_data notification) ''dynamic_template_data'' of
                Inl e \<Rightarrow> ([], Inl e)
              | Inr dynamic_template_data \<Rightarrow>
                  (case fetchAttachments this (event_name notification) dynamic_template_data
                          attachmentGenerator of
                     Inl e \<Rightarrow>
                       ([FetchAttachments (event_name notification) dynamic_template_data], Inl e)
                   | Inr attachments \<Rightarrow>
                       (let sendOptions =
                              \<lparr> template = templateName,
                                message_to = js_or config_to (n_to notification),
                                message_attachments = Some (map mail_attachment_of attachments),
                                locals_data = n_data notification \<rparr>;
                            status = (if mail sendOptions then sent else failed)
                        in ([FetchAttachments (event_name notification) dynamic_template_data,
                             Send sendOptions],
                            Inr \<lparr> r_to = message_to sendOptions,
                                  r_status = status,
                                  r_data = js_or (locals_data sendOptions) (JObj []) \<rparr>))))))"

section \<open>Numbers and strings of JavaScript\<close>

text \<open>
  A JavaScript number is a double. A finite double is a rational, and every arithmetic
  operation returns the double nearest to the exact result, ties to the even significand
  (IEEE 754 binary64, round to nearest even). \<open>fl\<close> is that rounding, for results in the
  normal range (no overflow to infinity, no subnormal): the amounts and rates handled here
  are far inside it.
\<close>

text \<open>The number of binary digits of a positive integer.\<close>

function bit_length :: "int \<Rightarrow> int" where
  "bit_length n = (if n \<le> 0 then 0 else 1 + bit_length (n div 2))"
  by pat_completeness auto
termination
  by (relation "measure nat") auto

declare bit_length.simps [simp del]

definition pow2 :: "int \<Rightarrow> rat" where
  "pow2 e = (if 0 \<le> e then 2 ^ nat e else 1 / 2 ^ nat (- e))"

text \<open>The integer \<open>k\<close> with \<open>2 ^ k \<le> x < 2 ^ (k + 1)\<close>, for a positive \<open>x\<close>.\<close>

definition ilog2 :: "rat \<Rightarrow> int" where
  "ilog2 x =
     (let (p, q) = quotient_of x;
          c = bit_length p - bit_length q
      in if pow2 c \<le> x then c else c - 1)"

text \<open>The nearest integer, a tie going to the even one.\<close>

definition round_even :: "rat \<Rightarrow> int" where
  "round_even m =
     (let f = \<lfloor>m\<rfloor>; d = m - of_int f
      in if d < 1 / 2 then f
         else if 1 / 2 < d then f + 1
         else if even f then f else f + 1)"

definition fl :: "rat \<Rightarrow> rat" where
  "fl x =
     (if x = 0 then 0
      else (let e = ilog2 \<bar>x\<bar> - 52
            in of_int (round_even (x / pow2 e)) * pow2 e))"


text \<open>
  The decimal digits of a non-negative integer, and \<^verbatim>\<open>String(n)\<close> for an integer \<open>n\<close>
  (below \<open>10 ^ 21\<close> in magnitude, where JavaScript prints all digits).
\<close>

definition digit_char :: "int \<Rightarrow> char" where
  "digit_char d = ''0123456789'' ! nat d"

function digits :: "int \<Rightarrow> string" where
  "digits n = (if n < 10 then [digit_char n] else digits (n div 10) @ [digit_char (n mod 10)])"
  by pat_completeness auto
termination
  by (relation "measure nat") auto

declare digits.simps [simp del]

definition number_to_string :: "int \<Rightarrow> string" where
  "number_to_string n = (if n < 0 then CHR ''-'' # digits (- n) else digits n)"

text \<open>
  \<^verbatim>\<open>x.toFixed(d)\<close> for a double below \<open>10 ^ 21\<close> in magnitude: the sign of a negative \<open>x\<close>,
  then the integer \<open>n\<close> nearest to \<open>\<bar>x\<bar> * 10 ^ d\<close> (the larger one on a tie) in decimal,
  padded with zeros to \<open>d + 1\<close> digits, with a point before the last \<open>d\<close> digits.
\<close>

definition toFixed :: "rat \<Rightarrow> nat \<Rightarrow> string" where
  "toFixed x d =
     (let s = (if x < 0 then ''-'' else '''');
          n = \<lfloor>\<bar>x\<bar> * 10 ^ d + 1 / 2\<rfloor>;
          m = digits n;
          m' = replicate (Suc d - length m) CHR ''0'' @ m
      in if d = 0 then s @ m
         else s @ take (length m' - d) m' @ ''.'' @ drop (length m' - d) m')"

text \<open>\<^verbatim>\<open>toLowerCase\<close> and \<^verbatim>\<open>toUpperCase\<close>, on the ASCII letters of a currency code.\<close>

definition toLowerCase :: "string \<Rightarrow> string" where
  "toLowerCase s =
     map (\<lambda>c. case map_of (zip ''ABCDEFGHIJKLMNOPQRSTUVWXYZ'' ''abcdefghijklmnopqrstuvwxyz'') c of
                 None \<Rightarrow> c | Some l \<Rightarrow> l) s"

definition toUpperCase :: "string \<Rightarrow> string" where
  "toUpperCase s =
     map (\<lambda>c. case map_of (zip ''abcdefghijklmnopqrstuvwxyz'' ''ABCDEFGHIJKLMNOPQRSTUVWXYZ'') c of
                 None \<Rightarrow> c | Some u \<Rightarrow> u) s"

section \<open>The price formatter\<close>

text \<open>
  Modelled from the spec: \<^verbatim>\<open>humanizeAmount\<close> and \<^verbatim>\<open>zeroDecimalCurrencies\<close> are imported from the
  package \<^verbatim>\<open>medusa-core-utils\<close>, which is not part of the sources. The formatter converts
  an amount in minor units into the decimal amount of the currency, honouring the
  zero-decimal currencies, with a lower-cased currency code as lookup key: the amount is
  divided by 100, or by 1 for a zero-decimal currency. The table is the one of the
  package.
\<close>

definition zeroDecimalCurrencies :: "string list" where
  "zeroDecimalCurrencies =
     [''bif'', ''clp'', ''djf'', ''gnf'', ''jpy'', ''kmf'', ''krw'', ''mga'', ''pyg'', ''rwf'',
      ''ugx'', ''vnd'', ''vuv'', ''xaf'', ''xof'', ''xpf'']"

definition humanizeAmount :: "rat \<Rightarrow> string \<Rightarrow> rat" where
  "humanizeAmount amount currency =
     (let divisor = (if toLowerCase currency \<in> set zeroDecimalCurrencies then 1 else 100)
      in fl (amount / divisor))"

text \<open>
  \<^verbatim>\<open>humanPrice_(amount, currency)\<close> (lines 1221 to 1230) on a number: \<^verbatim>\<open>!amount\<close> holds of
  zero.
\<close>

definition humanPrice :: "rat \<Rightarrow> string \<Rightarrow> string" where
  "humanPrice amount currency =
     (if amount = 0 then ''0.00''
      else
        (let normalized = humanizeAmount amount currency
         in toFixed normalized
              (if toLowerCase currency \<in> set zeroDecimalCurrencies then 0 else 2)))"

section \<open>Assemblers: the fields computed from the order, the cart and the return\<close>

text \<open>
  The assemblers retrieve their aggregates from the domain services and return a context
  of many fields. What follows are the computations of the fields that carry discounts,
  gift cards and totals, on the retrieved aggregates. Amounts are integers in minor units
  (the columns of the entities are integer columns, and sums of such integers are exact
  in doubles); they become numbers of the formatter at the last step.
\<close>

subsection \<open>\<^verbatim>\<open>orderPlacedData\<close> and \<^verbatim>\<open>orderCanceledData\<close>: the discounts of the context\<close>

record discount_rule =
  rule_type :: string
  rule_value :: int

record discount =
  discount_code :: string
  rule :: discount_rule

record gift_card =
  gift_card_code :: string
  gift_card_value :: int

text \<open>
  The order as retrieved: the relations \<^verbatim>\<open>discounts\<close> and \<^verbatim>\<open>gift_cards\<close> are \<open>None\<close> when the
  property is missing (the source tests \<^verbatim>\<open>if (order.discounts)\<close>, and an array is truthy
  even when empty).
\<close>

record order =
  currency_code :: string
  discounts :: "discount list option"
  gift_cards :: "gift_card list option"

record discount_line =
  is_giftcard :: bool
  code :: string
  descriptor :: string

text \<open>The body of \<^verbatim>\<open>order.discounts.map\<close> (lines 547 to 553 and 441 to 447).\<close>

definition discount_descriptor_line :: "string \<Rightarrow> discount \<Rightarrow> discount_line" where
  "discount_descriptor_line currencyCode d =
     \<lparr> is_giftcard = False,
       code = discount_code d,
       descriptor =
         number_to_string (rule_value (rule d))
         @ (if rule_type (rule d) = ''percentage'' then ''%'' else '' '' @ currencyCode) \<rparr>"

text \<open>The body of \<^verbatim>\<open>order.gift_cards.map\<close> (lines 559 to 565 and 453 to 459).\<close>

definition gift_card_descriptor_line :: "string \<Rightarrow> gift_card \<Rightarrow> discount_line" where
  "gift_card_descriptor_line currencyCode gc =
     \<lparr> is_giftcard = True,
       code = gift_card_code gc,
       descriptor = number_to_string (gift_card_value gc) @ '' '' @ currencyCode \<rparr>"

text \<open>The local \<^verbatim>\<open>giftCards\<close> of both assemblers.\<close>

definition giftCards_of :: "order \<Rightarrow> discount_line list" where
  "giftCards_of ord =
     (let currencyCode = toUpperCase (currency_code ord)
      in case gift_cards ord of
           None \<Rightarrow> []
         | Some gcs \<Rightarrow> map (gift_card_descriptor_line currencyCode) gcs)"

text \<open>
  \<^verbatim>\<open>Array.prototype.concat\<close> returns a new array and leaves the receiver as it is.
\<close>

definition concat_arrays :: "'a list \<Rightarrow> 'a list \<Rightarrow> 'a list" where
  "concat_arrays xs ys = xs @ ys"

text \<open>
  The value of \<^verbatim>\<open>discounts\<close> in the context returned by \<^verbatim>\<open>orderPlacedData\<close> (lines 545 to
  568, and 595). The statement \<^verbatim>\<open>discounts.concat(giftCards)\<close> is an expression statement:
  its value, bound to \<open>dropped\<close> here, is used nowhere, and \<^verbatim>\<open>discounts\<close> is not assigned
  again. The context is built with \<^verbatim>\<open>order.discounts.length\<close> and
  \<^verbatim>\<open>order.gift_cards.length\<close> (lines 591 and 592), which throw when the relation is
  missing: then there is no context.
\<close>

definition orderPlacedData_discounts :: "order \<Rightarrow> error + discount_line list" where
  "orderPlacedData_discounts ord =
     (let currencyCode = toUpperCase (currency_code ord);
          discounts0 = (case discounts ord of
                          None \<Rightarrow> []
                        | Some ds \<Rightarrow> map (discount_descriptor_line currencyCode) ds);
          giftCards = giftCards_of ord;
          dropped = (case gift_cards ord of
                       None \<Rightarrow> []
                     | Some gcs \<Rightarrow> concat_arrays discounts0 giftCards)
      in if discounts ord = None \<or> gift_cards ord = None then Inl TypeError
         else Inr discounts0)"

text \<open>The same in \<^verbatim>\<open>orderCanceledData\<close> (lines 439 to 462, 469, 470 and 473).\<close>

definition orderCanceledData_discounts :: "order \<Rightarrow> error + discount_line list" where
  "orderCanceledData_discounts ord =
     (let currencyCode = toUpperCase (currency_code ord);
          discounts0 = (case discounts ord of
                          None \<Rightarrow> []
                        | Some ds \<Rightarrow> map (discount_descriptor_line currencyCode) ds);
          giftCards = giftCards_of ord;
          dropped = (case gift_cards ord of
                       None \<Rightarrow> []
                     | Some gcs \<Rightarrow> concat_arrays discounts0 giftCards)
      in if discounts ord = None \<or> gift_cards ord = None then Inl TypeError
         else Inr discounts0)"

subsection \<open>\<^verbatim>\<open>swapCreatedData\<close> and \<^verbatim>\<open>swapReceivedData\<close>: the totals of the cart lines\<close>

text \<open>What \<^verbatim>\<open>totalsService_.getLineItemTotals\<close> returns for a line, as far as it is read.\<close>

record line_item_totals =
  subtotal :: int
  tax_total :: int
  total :: int
  original_total :: int

text \<open>
  A line of the cart with its totals (an element of \<^verbatim>\<open>decoratedItems\<close>); \<open>variant_id\<close> is
  \<open>None\<close> for \<^verbatim>\<open>null\<close>.
\<close>

record decorated_item =
  is_return :: bool
  variant_id :: "string option"
  totals :: line_item_totals

text \<open>\<^verbatim>\<open>next.is_return && next.variant_id\<close> as a condition: the empty string is falsy.\<close>

definition is_return_with_variant :: "decorated_item \<Rightarrow> bool" where
  "is_return_with_variant next =
     (is_return next \<and> (case variant_id next of None \<Rightarrow> False | Some v \<Rightarrow> v \<noteq> []))"

text \<open>\<^verbatim>\<open>`${this.humanPrice_(amount, currencyCode)} ${currencyCode}`\<close>\<close>

definition price_with_currency :: "int \<Rightarrow> string \<Rightarrow> string" where
  "price_with_currency amount currencyCode =
     humanPrice (of_int amount) currencyCode @ '' '' @ currencyCode"

text \<open>\<^verbatim>\<open>swapCreatedData\<close>, lines 958 to 972, and the two fields of lines 988 to 999.\<close>

definition swapCreatedData_returnTotal :: "decorated_item list \<Rightarrow> int" where
  "swapCreatedData_returnTotal decoratedItems =
     foldl (\<lambda>acc next.
              if is_return_with_variant next then acc + - 1 * total (totals next) else acc)
           0 decoratedItems"

definition swapCreatedData_additionalTotal :: "decorated_item list \<Rightarrow> int" where
  "swapCreatedData_additionalTotal decoratedItems =
     foldl (\<lambda>acc next. if \<not> is_return next then acc + total (totals next) else acc)
           0 decoratedItems"

definition swapCreatedData_return_total :: "string \<Rightarrow> decorated_item list \<Rightarrow> string" where
  "swapCreatedData_return_total order_currency_code decoratedItems =
     price_with_currency (swapCreatedData_returnTotal decoratedItems)
       (toUpperCase order_currency_code)"

definition swapCreatedData_additional_total :: "string \<Rightarrow> decorated_item list \<Rightarrow> string" where
  "swapCreatedData_additional_total order_currency_code decoratedItems =
     price_with_currency (swapCreatedData_additionalTotal decoratedItems)
       (toUpperCase order_currency_code)"

text \<open>\<^verbatim>\<open>swapReceivedData\<close>, lines 826 to 838, and the two fields of lines 854 to 869.\<close>

definition swapReceivedData_returnTotal :: "decorated_item list \<Rightarrow> int" where
  "swapReceivedData_returnTotal decoratedItems =
     foldl (\<lambda>acc next.
              if is_return next
              then acc + - 1 * (subtotal (totals next) + tax_total (totals next))
              else acc)
           0 decoratedItems"

definition swapReceivedData_additionalTotal :: "decorated_item list \<Rightarrow> int" where
  "swapReceivedData_additionalTotal decoratedItems =
     foldl (\<lambda>acc next.
              if \<not> is_return next
              then acc + subtotal (totals next) + tax_total (totals next)
              else acc)
           0 decoratedItems"

definition swapReceivedData_return_total :: "string \<Rightarrow> decorated_item list \<Rightarrow> string" where
  "swapReceivedData_return_total order_currency_code decoratedItems =
     price_with_currency (swapReceivedData_returnTotal decoratedItems)
       (toUpperCase order_currency_code)"

definition swapReceivedData_additional_total :: "string \<Rightarrow> decorated_item list \<Rightarrow> string" where
  "swapReceivedData_additional_total order_currency_code decoratedItems =
     price_with_currency (swapReceivedData_additionalTotal decoratedItems)
       (toUpperCase order_currency_code)"

subsection \<open>\<^verbatim>\<open>returnRequestedData\<close>: the shipping total\<close>

record tax_line =
  rate :: rat

record shipping_method =
  price :: int
  tax_lines :: "tax_line list"





section \<open>Concrete services and mail clients\<close>

text \<open>
  A container whose domain services are down (every assembler that queries them rejects)
  and whose fulfillment provider has no documents; two services constructed from it; and
  the two behaviours of the mail client.
\<close>

definition unavailable :: "jsval \<Rightarrow> error + jsval" where
  "unavailable x = Inl (Rejected ''unavailable'')"

definition no_documents :: "jsval \<Rightarrow> jsval \<Rightarrow> string \<Rightarrow> error + jsval" where
  "no_documents provider shipping_data kind = Inr (JArr [])"

definition bare_container :: smtp_service where
  "bare_container =
     \<lparr> smtp_options = default_options, giftCardService = None,
       retrieveDocuments = no_documents,
       returnRequestedData = unavailable, swapShipmentCreatedData = unavailable,
       claimShipmentCreatedData = unavailable, swapReceivedData = unavailable,
       swapCreatedData = unavailable, orderPlacedData = unavailable,
       orderShipmentCreatedData = unavailable, orderCanceledData = unavailable,
       restockNotificationData = unavailable \<rparr>"

definition default_service :: smtp_service where
  "default_service =
     constructor bare_container
       \<lparr> opt_fromEmail = None, opt_emailTemplatePath = None, opt_templateMap = None \<rparr>"

definition configured_service :: smtp_service where
  "configured_service =
     constructor bare_container
       \<lparr> opt_fromEmail = None, opt_emailTemplatePath = None,
         opt_templateMap = Some [(''user.password_reset'', JStr ''passwordreset''),
                                 (''gift_card.created'', JStr ''giftcard''),
                                 (''swap.created'', JStr ''swapcreated''),
                                 (''order.placed'', JStr ''orderplaced'')] \<rparr>"

definition resolves :: "send_options \<Rightarrow> bool" where
  "resolves so = True"

definition rejects :: "send_options \<Rightarrow> bool" where
  "rejects so = False"

text \<open>
  A service whose swap assembler succeeds: for every payload it returns a context with
  the recipient and a return request without shipping method, the shape that
  \<^verbatim>\<open>swapCreatedData\<close> returns (\<^verbatim>\<open>email\<close> and \<^verbatim>\<open>return_request\<close> at top level).
\<close>

definition swap_assembled :: "jsval \<Rightarrow> error + jsval" where
  "swap_assembled payload =
     Inr (JObj [(''email'', JStr ''ada@example.com''),
                (''return_request'', JObj [(''shipping_method'', JNull),
                                           (''items'', JArr [])])])"

definition swap_service :: smtp_service where
  "swap_service =
     constructor (bare_container \<lparr> swapCreatedData := swap_assembled \<rparr>)
       \<lparr> opt_fromEmail = None, opt_emailTemplatePath = None,
         opt_templateMap = Some [(''swap.created'', JStr ''swapcreated'')] \<rparr>"

lemmas fixture_defs =
  configured_service_def constructor_def merge_options_def default_options_def
  bare_container_def unavailable_def no_documents_def resolves_def

lemmas dispatch_defs =
  sendNotification_def resendNotification_def getTemplateNameForEvent_def fetchData_def
  fetchAttachments_def userPasswordResetData_def js_or_def

section \<open>The dispatcher: properties\<close>

lemma sendNotification_without_template:
  "\<not> truthy (getTemplateNameForEvent this event) \<Longrightarrow>
   sendNotification this mail event eventData gen =
     ([], Inr \<lparr> r_to = JStr '''', r_status = noDataFound, r_data = JObj [] \<rparr>)"
  by (simp add: sendNotification_def)

lemma resendNotification_without_template:
  "\<not> truthy (getTemplateNameForEvent this (event_name notification)) \<Longrightarrow>
   resendNotification this mail notification config gen =
     ([], Inr \<lparr> r_to = n_to notification, r_status = noTemplateFound,
                r_data = n_data notification \<rparr>)"
  by (simp add: resendNotification_def)

text \<open>
  Claim C1. Without a template for the event, \<^verbatim>\<open>sendNotification\<close> returns at once, with
  an empty recipient and empty data, and calls neither data assembly nor attachment
  resolution nor the mail client (the list of calls is empty): that much of the claim
  holds, by \<open>sendNotification_without_template\<close>. The status of the record is
  \<^verbatim>\<open>'noDataFound'\<close>, though, where the claim and the resend path
  (\<open>resendNotification_without_template\<close>) have \<^verbatim>\<open>'noTemplateFound'\<close>. Here on a service
  with the default options, which has a template for \<^verbatim>\<open>order.placed\<close> alone.
\<close>

theorem sendNotification_no_template_status:
  "sendNotification default_service resolves ''order.canceled''
       (JObj [(''id'', JStr ''order_1'')]) NoGenerator =
     ([], Inr \<lparr> r_to = JStr '''', r_status = noDataFound, r_data = JObj [] \<rparr>)"
  by (simp add: dispatch_defs fixture_defs default_service_def)

text \<open>
  Claim C4, as stated, fails: nothing between assembly and send looks at the recipient.
  The assembler of \<^verbatim>\<open>user.password_reset\<close> hands the payload through, and a payload
  without \<^verbatim>\<open>email\<close> reaches the mail client with \<^verbatim>\<open>message.to\<close> undefined.
\<close>

theorem send_with_missing_recipient:
  "sendNotification configured_service resolves ''user.password_reset''
       (JObj [(''token'', JStr ''t0k3n'')]) NoGenerator =
     ([FetchData ''user.password_reset'' (JObj [(''token'', JStr ''t0k3n'')]),
       FetchAttachments ''user.password_reset'' (JObj [(''token'', JStr ''t0k3n'')]),
       Send \<lparr> template = JStr ''passwordreset'', message_to = JUndefined,
              message_attachments = None,
              locals_data = JObj [(''token'', JStr ''t0k3n'')] \<rparr>],
      Inr \<lparr> r_to = JUndefined, r_status = sent,
            r_data = JObj [(''token'', JStr ''t0k3n'')] \<rparr>)"
  by (simp add: dispatch_defs fixture_defs)

text \<open>
  Claim C4, amended. Every send of \<^verbatim>\<open>sendNotification\<close> carries the context that
  \<^verbatim>\<open>fetchData\<close> assembled, and its recipient is the \<^verbatim>\<open>email\<close> property of that context as it
  is, \<^verbatim>\<open>undefined\<close> when the context has none: the recipient is non-empty exactly when the
  assembler put a non-empty \<^verbatim>\<open>email\<close> into the context.
\<close>

theorem send_recipient_is_email_of_data:
  assumes "Send so \<in> set (fst (sendNotification this mail event eventData gen))"
  shows "fetchData this event eventData gen = Inr (locals_data so)
       \<and> get_prop (locals_data so) ''email'' = Inr (message_to so)"
  using assms
  by (auto simp: sendNotification_def Let_def split: if_splits sum.splits)

theorem send_recipient_is_email_of_data_witness:
  "Send \<lparr> template = JStr ''passwordreset'', message_to = JStr ''ada@example.com'',
          message_attachments = None,
          locals_data = JObj [(''email'', JStr ''ada@example.com'')] \<rparr>
     \<in> set (fst (sendNotification configured_service resolves ''user.password_reset''
                   (JObj [(''email'', JStr ''ada@example.com'')]) NoGenerator))
   \<and> fetchData configured_service ''user.password_reset''
        (JObj [(''email'', JStr ''ada@example.com'')]) NoGenerator =
      Inr (JObj [(''email'', JStr ''ada@example.com'')])
   \<and> get_prop (JObj [(''email'', JStr ''ada@example.com'')]) ''email'' =
      Inr (JStr ''ada@example.com'')"
proof -
  let ?so = "\<lparr> template = JStr ''passwordreset'', message_to = JStr ''ada@example.com'',
                message_attachments = None,
                locals_data = JObj [(''email'', JStr ''ada@example.com'')] \<rparr>"
  have h: "Send ?so \<in> set (fst (sendNotification configured_service resolves
             ''user.password_reset'' (JObj [(''email'', JStr ''ada@example.com'')]) NoGenerator))"
    by (simp add: dispatch_defs fixture_defs)
  from send_recipient_is_email_of_data [OF h] h show ?thesis by simp
qed

text \<open>
  Claim C5. Once a dispatch, first send or resend, reaches the send (the send is among its
  calls, whatever the mail client \<open>mail\<close> does), the dispatch with any mail client \<open>mail'\<close>
  returns a result record and throws nothing: the status is \<^verbatim>\<open>'sent'\<close> when the send
  resolves and \<^verbatim>\<open>'failed'\<close> when it rejects, and \<^verbatim>\<open>to\<close> and \<^verbatim>\<open>data\<close> come from the send
  options alone, the same in both outcomes.
\<close>

theorem send_rejection_is_swallowed:
  "(Send so \<in> set (fst (sendNotification this mail event eventData gen)) \<longrightarrow>
      snd (sendNotification this mail' event eventData gen) =
        Inr \<lparr> r_to = message_to so,
              r_status = (if mail' so then sent else failed),
              r_data = js_or (locals_data so) (JObj []) \<rparr>)
 \<and> (Send so \<in> set (fst (resendNotification this mail notification config gen)) \<longrightarrow>
      snd (resendNotification this mail' notification config gen) =
        Inr \<lparr> r_to = message_to so,
              r_status = (if mail' so then sent else failed),
              r_data = js_or (locals_data so) (JObj []) \<rparr>)"
  by (auto simp: sendNotification_def resendNotification_def Let_def
           split: if_splits sum.splits)

theorem send_rejection_is_swallowed_witness:
  "Send \<lparr> template = JStr ''passwordreset'', message_to = JStr ''ada@example.com'',
          message_attachments = None,
          locals_data = JObj [(''email'', JStr ''ada@example.com'')] \<rparr>
     \<in> set (fst (sendNotification configured_service resolves ''user.password_reset''
                   (JObj [(''email'', JStr ''ada@example.com'')]) NoGenerator))
   \<and> snd (sendNotification configured_service rejects ''user.password_reset''
            (JObj [(''email'', JStr ''ada@example.com'')]) NoGenerator) =
      Inr \<lparr> r_to = JStr ''ada@example.com'', r_status = failed,
            r_data = JObj [(''email'', JStr ''ada@example.com'')] \<rparr>
   \<and> Send \<lparr> template = JStr ''orderplaced'', message_to = JStr ''grace@example.com'',
            message_attachments = Some [],
            locals_data = JObj [(''email'', JStr ''ada@example.com'')] \<rparr>
     \<in> set (fst (resendNotification configured_service resolves
                   \<lparr> event_name = ''order.placed'', n_to = JStr ''ada@example.com'',
                     n_data = JObj [(''email'', JStr ''ada@example.com'')] \<rparr>
                   (JObj [(''to'', JStr ''grace@example.com'')]) NoGenerator))
   \<and> snd (resendNotification configured_service rejects
            \<lparr> event_name = ''order.placed'', n_to = JStr ''ada@example.com'',
              n_data = JObj [(''email'', JStr ''ada@example.com'')] \<rparr>
            (JObj [(''to'', JStr ''grace@example.com'')]) NoGenerator) =
      Inr \<lparr> r_to = JStr ''grace@example.com'', r_status = failed,
            r_data = JObj [(''email'', JStr ''ada@example.com'')] \<rparr>"
proof -
  let ?d = "JObj [(''email'', JStr ''ada@example.com'')]"
  let ?so = "\<lparr> template = JStr ''passwordreset'', message_to = JStr ''ada@example.com'',
                message_attachments = None, locals_data = ?d \<rparr>"
  let ?so' = "\<lparr> template = JStr ''orderplaced'', message_to = JStr ''grace@example.com'',
                 message_attachments = Some [], locals_data = ?d \<rparr>"
  let ?n = "\<lparr> event_name = ''order.placed'', n_to = JStr ''ada@example.com'', n_data = ?d \<rparr>"
  let ?c = "JObj [(''to'', JStr ''grace@example.com'')]"
  have h: "Send ?so \<in> set (fst (sendNotification configured_service resolves
             ''user.password_reset'' ?d NoGenerator))"
    by (simp add: dispatch_defs fixture_defs)
  have h': "Send ?so' \<in> set (fst (resendNotification configured_service resolves ?n ?c
              NoGenerator))"
    by (simp add: dispatch_defs fixture_defs)
  have a: "snd (sendNotification configured_service rejects ''user.password_reset'' ?d
                  NoGenerator) =
           Inr \<lparr> r_to = message_to ?so, r_status = (if rejects ?so then sent else failed),
                 r_data = js_or (locals_data ?so) (JObj []) \<rparr>"
    using send_rejection_is_swallowed
            [where so = ?so and this = configured_service and mail = resolves
               and event = "''user.password_reset''" and eventData = ?d
               and gen = NoGenerator and mail' = rejects]
          h
    by blast
  have b: "snd (resendNotification configured_service rejects ?n ?c NoGenerator) =
           Inr \<lparr> r_to = message_to ?so', r_status = (if rejects ?so' then sent else failed),
                 r_data = js_or (locals_data ?so') (JObj []) \<rparr>"
    using send_rejection_is_swallowed
            [where so = ?so' and this = configured_service and mail = resolves
               and notification = ?n and config = ?c and gen = NoGenerator
               and mail' = rejects]
          h'
    by blast
  from h h' a b show ?thesis
    by (simp add: rejects_def js_or_def)
qed

lemma resendNotification_where_attachments_resolve:
  assumes "truthy (getTemplateNameForEvent this (event_name notification))"
    and "n_data notification = JObj kvs"
    and "get_prop config ''to'' = Inr config_to"
    and "get_prop (n_data notification) ''dynamic_template_data'' = Inr dtd"
    and "fetchAttachments this (event_name notification) dtd gen = Inr atts"
    and "so = \<lparr> template = getTemplateNameForEvent this (event_name notification),
                  message_to = (if truthy config_to then config_to else n_to notification),
                  message_attachments = Some (map mail_attachment_of atts),
                  locals_data = n_data notification \<rparr>"
  shows "resendNotification this mail notification config gen =
           ([FetchAttachments (event_name notification) dtd, Send so],
            Inr \<lparr> r_to = (if truthy config_to then config_to else n_to notification),
                  r_status = (if mail so then sent else failed),
                  r_data = n_data notification \<rparr>)"
  using assms
  by (simp add: resendNotification_def Let_def js_or_def)

text \<open>
  Claim C6. Where \<^verbatim>\<open>resendNotification\<close> returns, its result is as claimed: the override
  of the config as \<^verbatim>\<open>to\<close>, or the \<^verbatim>\<open>to\<close> of the notification without one, and the stored
  data itself, with no assembler called (\<open>resendNotification_where_attachments_resolve\<close>).
  It does not return for the stored notifications of \<^verbatim>\<open>swap.created\<close> and
  \<^verbatim>\<open>order.return_requested\<close>. The first send resolves the attachments on the assembled
  context and returns that context as \<^verbatim>\<open>data\<close>; the resend resolves them on
  \<^verbatim>\<open>notification.data.dynamic_template_data\<close>, a key that nothing writes, so
  \<^verbatim>\<open>fetchAttachments\<close> reads \<^verbatim>\<open>return_request\<close> on \<^verbatim>\<open>undefined\<close> and throws before the send.
  Here a first send of \<^verbatim>\<open>swap.created\<close> that succeeds, and the resend of what it returned,
  with an override recipient.
\<close>

theorem resend_of_stored_swap_created_throws:
  "sendNotification swap_service resolves ''swap.created''
       (JObj [(''id'', JStr ''swap_1'')]) NoGenerator =
     ([FetchData ''swap.created'' (JObj [(''id'', JStr ''swap_1'')]),
       FetchAttachments ''swap.created''
         (JObj [(''email'', JStr ''ada@example.com''),
                (''return_request'', JObj [(''shipping_method'', JNull),
                                           (''items'', JArr [])])]),
       Send \<lparr> template = JStr ''swapcreated'', message_to = JStr ''ada@example.com'',
              message_attachments = None,
              locals_data =
                JObj [(''email'', JStr ''ada@example.com''),
                      (''return_request'', JObj [(''shipping_method'', JNull),
                                                 (''items'', JArr [])])] \<rparr>],
      Inr \<lparr> r_to = JStr ''ada@example.com'', r_status = sent,
            r_data = JObj [(''email'', JStr ''ada@example.com''),
                           (''return_request'', JObj [(''shipping_method'', JNull),
                                                      (''items'', JArr [])])] \<rparr>)
   \<and> resendNotification swap_service resolves
       \<lparr> event_name = ''swap.created'', n_to = JStr ''ada@example.com'',
         n_data = JObj [(''email'', JStr ''ada@example.com''),
                        (''return_request'', JObj [(''shipping_method'', JNull),
                                                   (''items'', JArr [])])] \<rparr>
       (JObj [(''to'', JStr ''grace@example.com'')]) NoGenerator =
     ([FetchAttachments ''swap.created'' JUndefined], Inl TypeError)"
  by (simp add: dispatch_defs fixture_defs swap_service_def swap_assembled_def
        fetch_labels_def fetch_invoice_def)

lemma gcCreatedData_returns_undefined:
  "gcCreatedData this eventData = Inr v \<Longrightarrow> v = JUndefined"
  by (auto simp: gcCreatedData_def split: sum.splits option.splits if_splits)

lemma gcCreatedData_without_service:
  "giftCardService this = None \<Longrightarrow> gcCreatedData this eventData = Inl TypeError"
  by (cases eventData) (simp_all add: gcCreatedData_def)

lemma constructor_giftCardService: "giftCardService (constructor container c) = None"
  by (simp add: constructor_def)

lemma fetchData_gift_card:
  "event = ''gift_card.created'' \<or> event = ''order.gift_card_created'' \<Longrightarrow>
   fetchData this event eventData gen = gcCreatedData this eventData"
  by (auto simp: fetchData_def)

lemma fetchAttachments_gift_card:
  "event = ''gift_card.created'' \<or> event = ''order.gift_card_created'' \<Longrightarrow>
   fetchAttachments this event data gen = Inr []"
  by (auto simp: fetchAttachments_def)

text \<open>
  Claim C10. With a template configured for \<^verbatim>\<open>gift_card.created\<close> or
  \<^verbatim>\<open>order.gift_card_created\<close>, \<^verbatim>\<open>sendNotification\<close> throws for every payload, attachment
  generator and mail client, and the mail client is never called. On a service built by
  the constructor the throw is the TypeError of reading \<^verbatim>\<open>retrieve\<close> on the unassigned
  \<^verbatim>\<open>this.giftCardService_\<close> (or of destructuring a payload that is \<^verbatim>\<open>undefined\<close> or \<^verbatim>\<open>null\<close>),
  inside data assembly. The first part holds of any service object, even one that had a
  gift card service: then the assembler either throws in the lookup, or throws the
  ReferenceError of the undeclared \<^verbatim>\<open>order\<close>, or returns \<^verbatim>\<open>undefined\<close> for a gift card
  without order, and reading \<^verbatim>\<open>email\<close> on that throws.
\<close>

theorem gift_card_events_throw:
  assumes "truthy (getTemplateNameForEvent this event)"
    and "event = ''gift_card.created'' \<or> event = ''order.gift_card_created''"
  shows "(\<exists>e calls. sendNotification this mail event eventData gen = (calls, Inl e)
            \<and> (\<forall>so. Send so \<notin> set calls))
       \<and> (giftCardService this = None \<longrightarrow>
            sendNotification this mail event eventData gen =
              ([FetchData event eventData], Inl TypeError))"
proof (cases "gcCreatedData this eventData")
  case (Inl e)
  then show ?thesis using assms
    by (auto simp: sendNotification_def fetchData_gift_card gcCreatedData_without_service)
next
  case (Inr v)
  then have v: "v = JUndefined" by (rule gcCreatedData_returns_undefined)
  from Inr have s: "giftCardService this \<noteq> None"
    using gcCreatedData_without_service [of this eventData] by auto
  from Inr v s show ?thesis using assms
    by (auto simp: sendNotification_def fetchData_gift_card fetchAttachments_gift_card)
qed

theorem gift_card_events_throw_witness:
  "truthy (getTemplateNameForEvent configured_service ''gift_card.created'')
   \<and> giftCardService configured_service = None
   \<and> sendNotification configured_service resolves ''gift_card.created''
        (JObj [(''id'', JStr ''gift_1'')]) NoGenerator =
      ([FetchData ''gift_card.created'' (JObj [(''id'', JStr ''gift_1'')])], Inl TypeError)"
proof -
  have t: "truthy (getTemplateNameForEvent configured_service ''gift_card.created'')"
    by (simp add: getTemplateNameForEvent_def js_or_def fixture_defs)
  have g: "giftCardService configured_service = None"
    by (simp add: configured_service_def constructor_giftCardService)
  from gift_card_events_throw [OF t, of resolves "JObj [(''id'', JStr ''gift_1'')]" NoGenerator]
    t g
  show ?thesis by simp
qed

section \<open>The price formatter and the assemblers: properties\<close>

lemma humanPrice_zero: "humanPrice 0 currency = ''0.00''"
  by (simp add: humanPrice_def)

text \<open>
  Claim C2. Two of the three values are as claimed: \<^verbatim>\<open>humanPrice_(0, "USD")\<close> is
  \<^verbatim>\<open>"0.00"\<close> and \<^verbatim>\<open>humanPrice_(1050, "USD")\<close> is \<^verbatim>\<open>"10.50"\<close>. The zero amount does bypass the
  humanizer, but with the constant \<^verbatim>\<open>'0.00'\<close> whatever the currency (\<open>humanPrice_zero\<close>):
  \<^verbatim>\<open>humanPrice_(0, "JPY")\<close> is \<^verbatim>\<open>"0.00"\<close> and not \<^verbatim>\<open>"0"\<close>, while any other amount in yen is
  printed without decimals.
\<close>

theorem humanPrice_zero_yen:
  "humanPrice 0 ''JPY'' = ''0.00''
   \<and> humanPrice 0 ''USD'' = ''0.00''
   \<and> humanPrice 1050 ''USD'' = ''10.50''
   \<and> humanPrice 1 ''JPY'' = ''1''
   \<and> humanPrice 1050 ''JPY'' = ''1050''"
  by code_simp

text \<open>
  Claim C3, as stated, fails for the fixed rule: the descriptor is the raw value of the rule
  followed by the currency, \<^verbatim>\<open>"500 USD"\<close>; the price formatter, which would give
  \<^verbatim>\<open>"5.00"\<close>, is not called on it, in neither assembler.
\<close>

theorem fixed_discount_descriptor_unformatted:
  "orderPlacedData_discounts
     \<lparr> currency_code = ''usd'',
       discounts = Some [\<lparr> discount_code = ''FIVE'',
                          rule = \<lparr> rule_type = ''fixed'', rule_value = 500 \<rparr> \<rparr>],
       gift_cards = Some [] \<rparr> =
     Inr [\<lparr> is_giftcard = False, code = ''FIVE'', descriptor = ''500 USD'' \<rparr>]
   \<and> orderCanceledData_discounts
     \<lparr> currency_code = ''usd'',
       discounts = Some [\<lparr> discount_code = ''FIVE'',
                          rule = \<lparr> rule_type = ''fixed'', rule_value = 500 \<rparr> \<rparr>],
       gift_cards = Some [] \<rparr> =
     Inr [\<lparr> is_giftcard = False, code = ''FIVE'', descriptor = ''500 USD'' \<rparr>]
   \<and> humanPrice 500 ''USD'' = ''5.00''"
  by code_simp

text \<open>
  Claim C3, amended. In the discount list of \<^verbatim>\<open>order.placed\<close> and \<^verbatim>\<open>order.canceled\<close>, every
  discount of the order yields one line, not flagged as gift card, whose descriptor is the
  value of the rule printed as it is, followed by \<^verbatim>\<open>%\<close> for a rule of type \<^verbatim>\<open>percentage\<close>
  and by a space and the upper-cased currency code for any other rule: \<^verbatim>\<open>"10%"\<close>, and
  \<^verbatim>\<open>"500 USD"\<close> for a fixed rule of value 500.
\<close>

theorem discount_descriptor_is_raw_value:
  assumes "discounts ord = Some ds" and "gift_cards ord = Some gcs"
  shows "orderPlacedData_discounts ord =
           Inr (map (\<lambda>d. \<lparr> is_giftcard = False, code = discount_code d,
                            descriptor =
                              number_to_string (rule_value (rule d))
                              @ (if rule_type (rule d) = ''percentage'' then ''%''
                                 else '' '' @ toUpperCase (currency_code ord)) \<rparr>) ds)
       \<and> orderCanceledData_discounts ord = orderPlacedData_discounts ord"
  using assms
  by (simp add: orderPlacedData_discounts_def orderCanceledData_discounts_def Let_def
        discount_descriptor_line_def)

theorem discount_descriptor_is_raw_value_witness:
  "orderPlacedData_discounts
     \<lparr> currency_code = ''usd'',
       discounts = Some [\<lparr> discount_code = ''TEN'',
                          rule = \<lparr> rule_type = ''percentage'', rule_value = 10 \<rparr> \<rparr>,
                        \<lparr> discount_code = ''FIVE'',
                          rule = \<lparr> rule_type = ''fixed'', rule_value = 500 \<rparr> \<rparr>],
       gift_cards = Some [] \<rparr> =
   Inr [\<lparr> is_giftcard = False, code = ''TEN'', descriptor = ''10%'' \<rparr>,
        \<lparr> is_giftcard = False, code = ''FIVE'', descriptor = ''500 USD'' \<rparr>]"
proof -
  let ?ds = "[\<lparr> discount_code = ''TEN'',
                 rule = \<lparr> rule_type = ''percentage'', rule_value = 10 \<rparr> \<rparr>,
               \<lparr> discount_code = ''FIVE'',
                 rule = \<lparr> rule_type = ''fixed'', rule_value = 500 \<rparr> \<rparr>]"
  let ?ord = "\<lparr> currency_code = ''usd'', discounts = Some ?ds, gift_cards = Some [] \<rparr>"
  have h: "discounts ?ord = Some ?ds" and g: "gift_cards ?ord = Some []" by simp_all
  have n: "number_to_string 10 = ''10''" "number_to_string 500 = ''500''" by code_simp+
  have u: "toUpperCase ''usd'' = ''USD''" by code_simp
  from discount_descriptor_is_raw_value [OF h g] show ?thesis by (simp add: n u)
qed

lemma discounts_without_gift_card_lines:
  "orderPlacedData_discounts ord = Inr ls \<Longrightarrow> l \<in> set ls \<Longrightarrow> \<not> is_giftcard l"
  "orderCanceledData_discounts ord = Inr ls \<Longrightarrow> l \<in> set ls \<Longrightarrow> \<not> is_giftcard l"
  by (auto simp: orderPlacedData_discounts_def orderCanceledData_discounts_def Let_def
        discount_descriptor_line_def split: option.splits if_splits)

lemma giftCards_of_lines:
  "gift_cards ord = Some gcs \<Longrightarrow>
   giftCards_of ord =
     map (\<lambda>gc. \<lparr> is_giftcard = True, code = gift_card_code gc,
                  descriptor = number_to_string (gift_card_value gc) @ '' ''
                               @ toUpperCase (currency_code ord) \<rparr>) gcs"
  by (simp add: giftCards_of_def gift_card_descriptor_line_def)

text \<open>
  Claim C9. Each gift card does yield a line flagged \<^verbatim>\<open>is_giftcard\<close> with the descriptor
  \<^verbatim>\<open>"{value} {CURRENCY}"\<close> (\<open>giftCards_of_lines\<close>), in the local \<^verbatim>\<open>giftCards\<close>. The lines never
  reach the context: \<^verbatim>\<open>discounts.concat(giftCards)\<close> builds the joined list and drops it, so
  the \<^verbatim>\<open>discounts\<close> of the context has no gift card line at all
  (\<open>discounts_without_gift_card_lines\<close>). Here for an order with one gift card and no
  discount, in both assemblers.
\<close>

theorem gift_card_lines_dropped:
  "giftCards_of
     \<lparr> currency_code = ''usd'', discounts = Some [],
       gift_cards = Some [\<lparr> gift_card_code = ''GIFT'', gift_card_value = 1000 \<rparr>] \<rparr> =
     [\<lparr> is_giftcard = True, code = ''GIFT'', descriptor = ''1000 USD'' \<rparr>]
   \<and> orderPlacedData_discounts
     \<lparr> currency_code = ''usd'', discounts = Some [],
       gift_cards = Some [\<lparr> gift_card_code = ''GIFT'', gift_card_value = 1000 \<rparr>] \<rparr> = Inr []
   \<and> orderCanceledData_discounts
     \<lparr> currency_code = ''usd'', discounts = Some [],
       gift_cards = Some [\<lparr> gift_card_code = ''GIFT'', gift_card_value = 1000 \<rparr>] \<rparr> = Inr []"
  by code_simp

lemma price_with_currency_zero: "price_with_currency 0 c = ''0.00 '' @ c"
  by (simp add: price_with_currency_def humanPrice_def)

text \<open>
  Claim C7, as stated, fails in both assemblers. In \<^verbatim>\<open>swapCreatedData\<close> a returned line
  counts only if it has a \<^verbatim>\<open>variant_id\<close>: a flagged line of total 1000 without variant
  gives the \<^verbatim>\<open>return_total\<close> \<^verbatim>\<open>"0.00 USD"\<close>, not \<^verbatim>\<open>"-10.00 USD"\<close>. In \<^verbatim>\<open>swapReceivedData\<close> the
  amount of a line is its subtotal plus its tax and not its total: a flagged line of
  subtotal 1000, tax 200 and total 1100 (a discount of 100) gives \<^verbatim>\<open>"-12.00 USD"\<close>, not
  \<^verbatim>\<open>"-11.00 USD"\<close>.
\<close>

theorem swap_return_total_not_negated_total:
  "swapCreatedData_return_total ''usd''
     [\<lparr> is_return = True, variant_id = None,
        totals = \<lparr> subtotal = 800, tax_total = 200, total = 1000, original_total = 1000 \<rparr> \<rparr>,
      \<lparr> is_return = False, variant_id = Some ''variant_2'',
        totals = \<lparr> subtotal = 400, tax_total = 100, total = 500, original_total = 500 \<rparr> \<rparr>]
     = ''0.00 USD''
   \<and> price_with_currency (- 1000) ''USD'' = ''-10.00 USD''
   \<and> swapReceivedData_return_total ''usd''
     [\<lparr> is_return = True, variant_id = Some ''variant_1'',
        totals = \<lparr> subtotal = 1000, tax_total = 200, total = 1100, original_total = 1200 \<rparr> \<rparr>,
      \<lparr> is_return = False, variant_id = Some ''variant_2'',
        totals = \<lparr> subtotal = 400, tax_total = 100, total = 500, original_total = 500 \<rparr> \<rparr>]
     = ''-12.00 USD''
   \<and> price_with_currency (- 1100) ''USD'' = ''-11.00 USD''"
  by code_simp

text \<open>
  Claim C7, amended. For a cart of two lines, \<open>a\<close> flagged \<^verbatim>\<open>is_return\<close> and \<open>b\<close> not:
  \<^item> in \<^verbatim>\<open>swapCreatedData\<close>, \<^verbatim>\<open>return_total\<close> is the formatted negation of the total of \<open>a\<close> when
    \<open>a\<close> has a \<^verbatim>\<open>variant_id\<close>, and the formatted zero otherwise; \<^verbatim>\<open>additional_total\<close> is the
    formatted total of \<open>b\<close>;
  \<^item> in \<^verbatim>\<open>swapReceivedData\<close>, \<^verbatim>\<open>return_total\<close> is the formatted negation of subtotal plus tax
    of \<open>a\<close>, and \<^verbatim>\<open>additional_total\<close> the formatted subtotal plus tax of \<open>b\<close>;
  \<^item> the four values are the same for the cart in the other order.
  Formatted means: through the price formatter, followed by a space and the upper-cased
  currency code of the order.
\<close>

theorem swap_totals_of_two_lines:
  assumes "is_return a" and "\<not> is_return b"
  shows "swapCreatedData_return_total c [a, b] =
           price_with_currency
             (if is_return_with_variant a then - total (totals a) else 0) (toUpperCase c)
       \<and> swapCreatedData_additional_total c [a, b] =
           price_with_currency (total (totals b)) (toUpperCase c)
       \<and> swapReceivedData_return_total c [a, b] =
           price_with_currency (- (subtotal (totals a) + tax_total (totals a))) (toUpperCase c)
       \<and> swapReceivedData_additional_total c [a, b] =
           price_with_currency (subtotal (totals b) + tax_total (totals b)) (toUpperCase c)
       \<and> swapCreatedData_return_total c [b, a] = swapCreatedData_return_total c [a, b]
       \<and> swapCreatedData_additional_total c [b, a] = swapCreatedData_additional_total c [a, b]
       \<and> swapReceivedData_return_total c [b, a] = swapReceivedData_return_total c [a, b]
       \<and> swapReceivedData_additional_total c [b, a] = swapReceivedData_additional_total c [a, b]"
  using assms
  by (simp add: swapCreatedData_return_total_def swapCreatedData_additional_total_def
        swapReceivedData_return_total_def swapReceivedData_additional_total_def
        swapCreatedData_returnTotal_def swapCreatedData_additionalTotal_def
        swapReceivedData_returnTotal_def swapReceivedData_additionalTotal_def
        is_return_with_variant_def)

theorem swap_totals_of_two_lines_witness:
  "swapCreatedData_return_total ''usd''
     [\<lparr> is_return = True, variant_id = Some ''variant_1'',
        totals = \<lparr> subtotal = 1000, tax_total = 200, total = 1100, original_total = 1200 \<rparr> \<rparr>,
      \<lparr> is_return = False, variant_id = Some ''variant_2'',
        totals = \<lparr> subtotal = 400, tax_total = 100, total = 500, original_total = 500 \<rparr> \<rparr>]
     = ''-11.00 USD''
   \<and> swapCreatedData_additional_total ''usd''
     [\<lparr> is_return = False, variant_id = Some ''variant_2'',
        totals = \<lparr> subtotal = 400, tax_total = 100, total = 500, original_total = 500 \<rparr> \<rparr>,
      \<lparr> is_return = True, variant_id = Some ''variant_1'',
        totals = \<lparr> subtotal = 1000, tax_total = 200, total = 1100, original_total = 1200 \<rparr> \<rparr>]
     = ''5.00 USD''"
proof -
  let ?a = "\<lparr> is_return = True, variant_id = Some ''variant_1'',
               totals = \<lparr> subtotal = 1000, tax_total = 200, total = 1100,
                          original_total = 1200 \<rparr> \<rparr>"
  let ?b = "\<lparr> is_return = False, variant_id = Some ''variant_2'',
               totals = \<lparr> subtotal = 400, tax_total = 100, total = 500,
                          original_total = 500 \<rparr> \<rparr>"
  have a: "is_return ?a" and b: "\<not> is_return ?b" by simp_all
  have v: "is_return_with_variant ?a" by (simp add: is_return_with_variant_def)
  have u: "toUpperCase ''usd'' = ''USD''" by code_simp
  have p: "price_with_currency (- 1100) ''USD'' = ''-11.00 USD''"
          "price_with_currency 500 ''USD'' = ''5.00 USD''" by code_simp+
  from swap_totals_of_two_lines [OF a b, of "''usd''"] v u p show ?thesis by simp
qed

subsection \<open>The rounding of doubles: what it leaves alone\<close>








lemma pow2_nat: "pow2 (int n) = 2 ^ n"
  by (simp add: pow2_def)























end
